theory Spec2Isabelle
  imports Complex_Main
begin

section \<open>The population forecast of app.py\<close>

text \<open>
  The development embeds \<^verbatim>\<open>prepare_country_context\<close> of \<^verbatim>\<open>app.py\<close>.
  Python's and numpy's finite floats are read as real numbers (exact arithmetic); the
  values that are not real numbers (\<^verbatim>\<open>-inf\<close>, \<^verbatim>\<open>nan\<close>) appear only as the
  failure of the step that would produce them. The data frame, which the program reads
  from a CSV file, is a parameter: a list of rows. The chart renderer
  \<^verbatim>\<open>build_chart\<close> draws with matplotlib and is a parameter as well.
\<close>

subsection \<open>Errors\<close>

text \<open>
  \<open>IndexError\<close> and \<open>TypeError\<close> are Python's. \<open>NumericError\<close> stands for the end
  of a run whose arithmetic has left the finite floats: numpy's \<^verbatim>\<open>log\<close> returns
  \<^verbatim>\<open>-inf\<close> at 0 and \<^verbatim>\<open>nan\<close> below 0 (with a warning, no exception), the
  least-squares fit of such values is not finite (or fails inside the library), and
  \<^verbatim>\<open>int()\<close> of a float that is not finite raises at the first table entry.
  \<open>DataError\<close>, with a country and a year, is the exception the specification
  names; no line of app.py raises it.
\<close>

datatype error = IndexError | TypeError | NumericError | DataError string int

subsection \<open>Python and numpy primitives\<close>

text \<open>\<^verbatim>\<open>xs[i]\<close>: a negative index counts from the end; out of range raises.\<close>

definition py_index :: "'a list \<Rightarrow> int \<Rightarrow> error + 'a" where
  "py_index xs i =
     (if 0 \<le> i \<and> i < int (length xs) then Inr (xs ! nat i)
      else if i < 0 \<and> - int (length xs) \<le> i then Inr (xs ! nat (int (length xs) + i))
      else Inl IndexError)"

text \<open>\<^verbatim>\<open>int(x)\<close> of a finite float: the fractional part is dropped.\<close>

definition py_int :: "real \<Rightarrow> int" where
  "py_int x = (if x < 0 then - \<lfloor>- x\<rfloor> else \<lfloor>x\<rfloor>)"

text \<open>\<^verbatim>\<open>np.log\<close> on one entry: \<open>None\<close> where the result is not a finite float.\<close>

definition np_log :: "real \<Rightarrow> real option" where
  "np_log x = (if 0 < x then Some (ln x) else None)"

text \<open>\<^verbatim>\<open>np.arange(a, b)\<close> on integers.\<close>

definition np_arange :: "int \<Rightarrow> int \<Rightarrow> int list" where
  "np_arange a b = [a..b - 1]"

text \<open>\<^verbatim>\<open>pop.max()\<close>: a left-to-right reduction with \<open>max\<close> (of a non-empty array).\<close>

definition np_max :: "real list \<Rightarrow> real" where
  "np_max xs = fold max (tl xs) (hd xs)"

text \<open>
  \<^verbatim>\<open>np.polyfit(t, y, 1)\<close> is library code. It returns the coefficients, highest
  degree first, of the line that minimises the sum of squared residuals; they are
  written here by the closed form of that minimiser (the normal equations), which is
  determined when the abscissae are not all equal. \<open>polyfit_den\<close> is the determinant
  of the normal equations.
\<close>

definition polyfit_den :: "real list \<Rightarrow> real" where
  "polyfit_den ts =
     real (length ts) * sum_list (map (\<lambda>t. t * t) ts) - sum_list ts * sum_list ts"

definition polyfit1 :: "real list \<Rightarrow> real list \<Rightarrow> real list" where
  "polyfit1 ts ys =
     (let n = real (length ts);
          slope = (n * sum_list (map2 (*) ts ys) - sum_list ts * sum_list ys) / polyfit_den ts;
          intercept = (sum_list ys - slope * sum_list ts) / n
      in [slope, intercept])"

text \<open>The sum of squared residuals of the line \<open>a * t + b\<close>, which the fit minimises.\<close>

definition sq_residuals :: "real list \<Rightarrow> real list \<Rightarrow> real \<Rightarrow> real \<Rightarrow> real" where
  "sq_residuals ts ys a b = sum_list (map2 (\<lambda>t y. (y - (a * t + b))\<^sup>2) ts ys)"

subsection \<open>The growth rate (lines 37 and 39)\<close>

text \<open>
  \<^verbatim>\<open>t = years - years[0]; r = float(np.polyfit(t, np.log(pop), 1)[0])\<close>, with
  \<open>years\<close> and \<open>pop\<close> as parameters. \<^verbatim>\<open>polyfit\<close> raises \<open>TypeError\<close> when the two
  arrays differ in length. When all years are equal, \<open>t\<close> is all zeros, numpy divides
  the design matrix by a zero column norm and the fit is not finite.
\<close>

definition fit_growth_rate :: "int list \<Rightarrow> real list \<Rightarrow> error + real" where
  "fit_growth_rate years pop =
     (case py_index years 0 of
        Inl e \<Rightarrow> Inl e
      | Inr y0 \<Rightarrow>
          let t = map (\<lambda>y. real_of_int (y - y0)) years in
          if length t \<noteq> length pop then Inl TypeError
          else (case those (map np_log pop) of
                  None \<Rightarrow> Inl NumericError
                | Some ys \<Rightarrow>
                    if polyfit_den t = 0 then Inl NumericError
                    else Inr (polyfit1 t ys ! 0)))"

subsection \<open>The two projections (lines 41 to 51)\<close>

text \<open>\<^verbatim>\<open>pop_future_exp = p0 * np.exp(r * (future_years - years[0]))\<close>.\<close>

definition pop_future_exp :: "real \<Rightarrow> real \<Rightarrow> int \<Rightarrow> int list \<Rightarrow> real list" where
  "pop_future_exp p0 r y0 future_years =
     (let t_future = map (\<lambda>y. y - y0) future_years
      in map (\<lambda>t. p0 * exp (r * real_of_int t)) t_future)"

text \<open>
  The body of the loop of lines 48 to 51 on the pair of the variables it updates,
  \<open>p\<close> and \<open>pop_log\<close>; then the loop, once for each element of \<open>future_years\<close>.
  The division is that of the reals: the program reaches the loop with finite values only
  when every population is positive, and then \<open>k\<close> is positive (\<open>series_k_positive\<close>
  below).
\<close>

definition logistic_body :: "real \<Rightarrow> real \<Rightarrow> real \<times> real list \<Rightarrow> real \<times> real list" where
  "logistic_body r k s =
     (let p = fst s; pop_log = snd s;
          dp = r * p * (1 - p / k);
          p = p + dp
      in (p, pop_log @ [p]))"

definition logistic_loop :: "real \<Rightarrow> real \<Rightarrow> real \<Rightarrow> int list \<Rightarrow> real list" where
  "logistic_loop r k p_last future_years =
     snd (fold (\<lambda>_. logistic_body r k) future_years (p_last, []))"

subsection \<open>Formatting\<close>

text \<open>The decimal digits of a natural number, as \<^verbatim>\<open>str\<close> prints them.\<close>

definition digit_char :: "nat \<Rightarrow> char" where
  "digit_char d = ''0123456789'' ! d"

fun py_digits :: "nat \<Rightarrow> string" where
  "py_digits n =
     (if n < 10 then [digit_char n] else py_digits (n div 10) @ [digit_char (n mod 10)])"

declare py_digits.simps [simp del]

text \<open>\<^verbatim>\<open>f"{i}"\<close> of an integer.\<close>

definition py_str_int :: "int \<Rightarrow> string" where
  "py_str_int i = (if i < 0 then CHR ''-'' # py_digits (nat (- i)) else py_digits (nat i))"

text \<open>
  \<^verbatim>\<open>f"{i:,}"\<close>: a comma before every group of three digits, counted from the right.
  \<open>group3\<close> works on the reversed digits.
\<close>

fun group3 :: "string \<Rightarrow> string" where
  "group3 (a # b # c # d # ds) = a # b # c # CHR '','' # group3 (d # ds)"
| "group3 ds = ds"

definition format_commas :: "int \<Rightarrow> string" where
  "format_commas i =
     (let body = rev (group3 (rev (py_digits (nat \<bar>i\<bar>))))
      in if i < 0 then CHR ''-'' # body else body)"

text \<open>
  \<^verbatim>\<open>f"{x:.df}"\<close>: \<open>d\<close> digits after the point, the last one rounded, a tie to the
  even digit.
\<close>

definition round_half_even :: "real \<Rightarrow> int" where
  "round_half_even x =
     (let f = \<lfloor>x\<rfloor>; d = x - of_int f
      in if d < 1 / 2 then f else if 1 / 2 < d then f + 1 else if even f then f else f + 1)"

definition format_fixed :: "nat \<Rightarrow> real \<Rightarrow> string" where
  "format_fixed d x =
     (let q = nat (round_half_even (\<bar>x\<bar> * 10 ^ d));
          frac = py_digits (q mod 10 ^ d)
      in (if x < 0 then [CHR ''-''] else []) @ py_digits (q div 10 ^ d) @
         (if d = 0 then [] else CHR ''.'' # replicate (d - length frac) CHR ''0'' @ frac))"

subsection \<open>The forecast table (lines 62 to 76)\<close>

record forecast_row =
  row_year :: int
  row_exp :: string
  row_log :: string

text \<open>
  The body of the loop over \<open>forecast_points\<close> for one \<open>year\<close>, on the table built so
  far; both \<^verbatim>\<open>continue\<close> branches return the table unchanged.
\<close>

definition table_body ::
  "int list \<Rightarrow> real list \<Rightarrow> real list \<Rightarrow> int \<Rightarrow> forecast_row list \<Rightarrow> error + forecast_row list"
where
  "table_body future_years exps logs yr tbl =
     (case py_index future_years 0 of
        Inl e \<Rightarrow> Inl e
      | Inr y0 \<Rightarrow>
          if yr < y0 then Inr tbl
          else
            let idx = yr - y0 in
            if int (length future_years) \<le> idx then Inr tbl
            else (case py_index exps idx of
                    Inl e \<Rightarrow> Inl e
                  | Inr ve \<Rightarrow>
                      (case py_index logs idx of
                         Inl e \<Rightarrow> Inl e
                       | Inr vl \<Rightarrow>
                           Inr (tbl @ [\<lparr>row_year = yr,
                                        row_exp = format_commas (py_int ve),
                                        row_log = format_commas (py_int vl)\<rparr>]))))"

fun table_loop ::
  "int list \<Rightarrow> real list \<Rightarrow> real list \<Rightarrow> int list \<Rightarrow> forecast_row list \<Rightarrow> error + forecast_row list"
where
  "table_loop future_years exps logs [] tbl = Inr tbl"
| "table_loop future_years exps logs (yr # rest) tbl =
     (case table_body future_years exps logs yr tbl of
        Inl e \<Rightarrow> Inl e
      | Inr tbl' \<Rightarrow> table_loop future_years exps logs rest tbl')"

subsection \<open>The summary (lines 78 to 87)\<close>

text \<open>
  The three conditional expressions: the last row of the table when the table is not
  empty, else the last point of the raw series.
\<close>

definition final_year :: "forecast_row list \<Rightarrow> int list \<Rightarrow> error + int" where
  "final_year tbl future_years =
     (if tbl \<noteq> [] then Inr (row_year (last tbl)) else py_index future_years (- 1))"

definition final_exp :: "forecast_row list \<Rightarrow> real list \<Rightarrow> error + string" where
  "final_exp tbl exps =
     (if tbl \<noteq> [] then Inr (row_exp (last tbl))
      else (case py_index exps (- 1) of
              Inl e \<Rightarrow> Inl e
            | Inr v \<Rightarrow> Inr (format_commas (py_int v))))"

definition final_log :: "forecast_row list \<Rightarrow> real list \<Rightarrow> error + string" where
  "final_log tbl logs =
     (if tbl \<noteq> [] then Inr (row_log (last tbl))
      else (case py_index logs (- 1) of
              Inl e \<Rightarrow> Inl e
            | Inr v \<Rightarrow> Inr (format_commas (py_int v))))"

definition summary_text :: "int \<Rightarrow> string \<Rightarrow> string \<Rightarrow> string" where
  "summary_text fy fe fl =
     ''Dalam horizon 50 tahun hingga '' @ py_str_int fy @
     '', model eksponensial memproyeksikan populasi mencapai sekitar '' @ fe @
     '' jiwa, sedangkan model logistic yang mempertimbangkan kapasitas lingkungan '' @
     ''memperkirakan sekitar '' @ fl @
     '' jiwa. Perbedaan ini membantu membaca skenario optimistis versus realistis '' @
     ''untuk setiap negara.''"

definition summarize ::
  "forecast_row list \<Rightarrow> int list \<Rightarrow> real list \<Rightarrow> real list \<Rightarrow> error + string"
where
  "summarize tbl future_years exps logs =
     (case final_year tbl future_years of
        Inl e \<Rightarrow> Inl e
      | Inr fy \<Rightarrow>
          (case final_exp tbl exps of
             Inl e \<Rightarrow> Inl e
           | Inr fe \<Rightarrow>
               (case final_log tbl logs of
                  Inl e \<Rightarrow> Inl e
                | Inr fl \<Rightarrow> Inr (summary_text fy fe fl))))"

subsection \<open>The data frame\<close>

text \<open>
  A row of \<^verbatim>\<open>world_population.csv\<close> with the columns the program reads. The string
  columns and \<^verbatim>\<open>Rank\<close> are as in the file; the other columns are read as floats.
\<close>

record csv_row =
  Country_Territory :: string
  Rank :: int
  Capital :: string
  Continent :: string
  Area :: real
  Density :: real
  Growth_Rate :: real
  World_Population_Percentage :: real
  Population_1970 :: real
  Population_1980 :: real
  Population_1990 :: real
  Population_2000 :: real
  Population_2010 :: real
  Population_2015 :: real
  Population_2020 :: real
  Population_2022 :: real

definition DEFAULT_COUNTRY :: string where
  "DEFAULT_COUNTRY = ''Indonesia''"

definition numeric_columns :: "(csv_row \<Rightarrow> real) list" where
  "numeric_columns =
     [Population_1970, Population_1980, Population_1990, Population_2000,
      Population_2010, Population_2015, Population_2020, Population_2022]"

text \<open>\<^verbatim>\<open>df[df["Country/Territory"] == country_name].iloc[0]\<close>.\<close>

definition select_row :: "csv_row list \<Rightarrow> string \<Rightarrow> error + csv_row" where
  "select_row df country_name =
     (case filter (\<lambda>d. Country_Territory d = country_name) df of
        [] \<Rightarrow> Inl IndexError
      | d # _ \<Rightarrow> Inr d)"

subsection \<open>The forecast of one row\<close>

definition years :: "int list" where
  "years = [1970, 1980, 1990, 2000, 2010, 2015, 2020, 2022]"

definition future_years :: "int list" where
  "future_years = np_arange 2022 2072"

definition forecast_points :: "int list" where
  "forecast_points = [2030, 2040, 2050, 2060, 2071]"

text \<open>Line 35: the eight population columns of the row, in the order of \<open>years\<close>.\<close>

definition pop_of :: "csv_row \<Rightarrow> real list" where
  "pop_of d = map (\<lambda>c. c d) numeric_columns"

text \<open>
  The local variables of lines 37 to 51 that the rest of the function reads: the growth
  rate, the carrying capacity and the two series.
\<close>

record series =
  s_r :: real
  s_k :: real
  s_exp :: "real list"
  s_log :: "real list"

definition forecast_series :: "csv_row \<Rightarrow> error + series" where
  "forecast_series d =
     (let pop = pop_of d;
          p0 = pop ! 0
      in case fit_growth_rate years pop of
           Inl e \<Rightarrow> Inl e
         | Inr r \<Rightarrow>
             let k = np_max pop * 3;
                 p = last pop
             in Inr \<lparr>s_r = r, s_k = k,
                     s_exp = pop_future_exp p0 r (years ! 0) future_years,
                     s_log = logistic_loop r k p future_years\<rparr>)"

subsection \<open>prepare_country_context\<close>

datatype stat_value = IntV int | StrV string

record country_context =
  country :: string
  stats :: "(string \<times> stat_value) list"
  growth_rate :: string
  chart :: string
  population_history :: "(int \<times> string) list"
  forecast_table :: "forecast_row list"
  forecast_summary :: string

text \<open>
  The dictionary of lines 89 to 97, in insertion order. The superscript two of the
  unit is written as its two bytes in UTF-8.
\<close>

definition stats_of :: "csv_row \<Rightarrow> (string \<times> stat_value) list" where
  "stats_of d =
     [(''Rank'', IntV (Rank d)),
      (''Capital'', StrV (Capital d)),
      (''Continent'', StrV (Continent d)),
      (''Area'', StrV (format_commas (py_int (Area d)) @ '' km'' @ [CHR 0xC2, CHR 0xB2])),
      (''Density'', StrV (format_fixed 2 (Density d) @ '' people/km'' @ [CHR 0xC2, CHR 0xB2])),
      (''Growth Rate'', StrV (format_fixed 4 (Growth_Rate d))),
      (''World Share'', StrV (format_fixed 2 (World_Population_Percentage d) @ ''%''))]"

text \<open>Lines 99 to 101.\<close>

definition population_history_of :: "real list \<Rightarrow> (int \<times> string) list" where
  "population_history_of pop =
     map (\<lambda>(yr, v). (yr, format_commas (py_int v))) (zip (rev years) (rev pop))"

text \<open>
  Lines 29 to 111, with the data frame and the renderer as arguments. The series of the
  model are lists of real numbers, so the conversions \<^verbatim>\<open>int(...)\<close> of lines 73,
  74, 79 and 80 always return here. In the program a series whose floats leave the
  finite range (an Euler iteration that diverges, an exponential that overflows) ends
  the run at these conversions with \<^verbatim>\<open>OverflowError\<close> or
  \<^verbatim>\<open>ValueError\<close>. The model has no such path: a context that it returns describes
  the run of the program only while the floats of the run stay finite.
\<close>

type_synonym renderer =
  "int list \<Rightarrow> real list \<Rightarrow> int list \<Rightarrow> real list \<Rightarrow> real list \<Rightarrow> string \<Rightarrow> string"

definition prepare_country_context ::
  "renderer \<Rightarrow> csv_row list \<Rightarrow> string \<Rightarrow> error + country_context"
where
  "prepare_country_context build_chart df country_name =
     (let country_name =
            (if country_name \<notin> set (map Country_Territory df) then DEFAULT_COUNTRY
             else country_name)
      in case select_row df country_name of
           Inl e \<Rightarrow> Inl e
         | Inr d \<Rightarrow>
             (case forecast_series d of
                Inl e \<Rightarrow> Inl e
              | Inr s \<Rightarrow>
                  let pop = pop_of d;
                      chart_data =
                        build_chart years pop future_years (s_exp s) (s_log s) country_name
                  in case table_loop future_years (s_exp s) (s_log s) forecast_points [] of
                       Inl e \<Rightarrow> Inl e
                     | Inr tbl \<Rightarrow>
                         (case summarize tbl future_years (s_exp s) (s_log s) of
                            Inl e \<Rightarrow> Inl e
                          | Inr summary \<Rightarrow>
                              Inr \<lparr>country = country_name,
                                   stats = stats_of d,
                                   growth_rate = format_fixed 4 (s_r s),
                                   chart = chart_data,
                                   population_history = population_history_of pop,
                                   forecast_table = tbl,
                                   forecast_summary = summary\<rparr>)))"

subsection \<open>Sample inputs\<close>

text \<open>
  A renderer that draws nothing, and a row whose population never changes: its fitted
  rate is 0, so every value of its forecast is a numeral.
\<close>

definition blank_chart :: renderer where
  "blank_chart ys pop fys exps logs c = []"

definition flat_row :: csv_row where
  "flat_row =
     \<lparr>Country_Territory = ''Indonesia'', Rank = 4, Capital = ''Jakarta'',
      Continent = ''Asia'', Area = 1904569, Density = 144.6529,
      Growth_Rate = 1.0064, World_Population_Percentage = 3.45,
      Population_1970 = 1000, Population_1980 = 1000, Population_1990 = 1000,
      Population_2000 = 1000, Population_2010 = 1000, Population_2015 = 1000,
      Population_2020 = 1000, Population_2022 = 1000\<rparr>"

text \<open>The forecast of that row.\<close>

definition flat_series :: series where
  "flat_series = \<lparr>s_r = 0, s_k = 3000, s_exp = replicate 50 1000, s_log = replicate 50 1000\<rparr>"

text \<open>The same row with a population of 0 in 1990, and the context of the unchanged row.\<close>

definition zero_row :: csv_row where
  "zero_row = flat_row\<lparr>Population_1990 := 0\<rparr>"

definition flat_context :: country_context where
  "flat_context =
     \<lparr>country = ''Indonesia'',
      stats =
        [(''Rank'', IntV 4), (''Capital'', StrV ''Jakarta''), (''Continent'', StrV ''Asia''),
         (''Area'', StrV (''1,904,569 km'' @ [CHR 0xC2, CHR 0xB2])),
         (''Density'', StrV (''144.65 people/km'' @ [CHR 0xC2, CHR 0xB2])),
         (''Growth Rate'', StrV ''1.0064''), (''World Share'', StrV ''3.45%'')],
      growth_rate = ''0.0000'',
      chart = [],
      population_history =
        [(2022, ''1,000''), (2020, ''1,000''), (2015, ''1,000''), (2010, ''1,000''),
         (2000, ''1,000''), (1990, ''1,000''), (1980, ''1,000''), (1970, ''1,000'')],
      forecast_table =
        [\<lparr>row_year = 2030, row_exp = ''1,000'', row_log = ''1,000''\<rparr>,
         \<lparr>row_year = 2040, row_exp = ''1,000'', row_log = ''1,000''\<rparr>,
         \<lparr>row_year = 2050, row_exp = ''1,000'', row_log = ''1,000''\<rparr>,
         \<lparr>row_year = 2060, row_exp = ''1,000'', row_log = ''1,000''\<rparr>,
         \<lparr>row_year = 2071, row_exp = ''1,000'', row_log = ''1,000''\<rparr>],
      forecast_summary = summary_text 2071 ''1,000'' ''1,000''\<rparr>"

section \<open>Properties\<close>

subsection \<open>The constants and the row\<close>

lemma length_future_years: "length future_years = 50"
  by (simp add: future_years_def np_arange_def)

lemma future_years_upto: "future_years = [2022..2071]"
  by (simp add: future_years_def np_arange_def)

lemma pop_of_eq:
  "pop_of d =
     [Population_1970 d, Population_1980 d, Population_1990 d, Population_2000 d,
      Population_2010 d, Population_2015 d, Population_2020 d, Population_2022 d]"
  by (simp add: pop_of_def numeric_columns_def)

lemma forecast_series_fields:
  assumes "forecast_series d = Inr s"
  shows "fit_growth_rate years (pop_of d) = Inr (s_r s)"
    and "s_k s = np_max (pop_of d) * 3"
    and "s_exp s = pop_future_exp (Population_1970 d) (s_r s) 1970 future_years"
    and "s_log s = logistic_loop (s_r s) (s_k s) (Population_2022 d) future_years"
  using assms
  by (auto simp: forecast_series_def Let_def pop_of_eq years_def split: sum.splits)

lemma fit_flat: "fit_growth_rate years (pop_of flat_row) = Inr 0"
  by (simp add: fit_growth_rate_def py_index_def years_def pop_of_eq flat_row_def np_log_def
      polyfit_den_def polyfit1_def Let_def)

subsection \<open>The logistic loop\<close>

lemma logistic_fold:
  fixes f :: "real \<Rightarrow> real"
  assumes f: "\<And>p. f p = p + r * p * (1 - p / k)"
  shows "fold (\<lambda>_. logistic_body r k) ys (p, acc) =
     ((f ^^ length ys) p, acc @ map (\<lambda>i. (f ^^ Suc i) p) [0..<length ys])"
proof (induction ys arbitrary: p acc)
  case Nil
  show ?case by simp
next
  case (Cons y ys)
  have upt: "[0..<Suc (length ys)] = 0 # map Suc [0..<length ys]"
    by (simp add: upt_conv_Cons map_Suc_upt del: upt_Suc)
  have body: "logistic_body r k (p, acc) = (f p, acc @ [f p])"
    by (simp add: logistic_body_def Let_def f)
  show ?case
    by (simp add: body Cons.IH upt funpow_swap1 comp_def del: upt_Suc)
qed

lemma logistic_loop_iterate:
  "logistic_loop r k p ys =
     map (\<lambda>i. ((\<lambda>p. p + r * p * (1 - p / k)) ^^ Suc i) p) [0..<length ys]"
  unfolding logistic_loop_def
  by (subst logistic_fold [where f = "\<lambda>p. p + r * p * (1 - p / k)"]) simp_all

lemma logistic_loop_Nil: "logistic_loop r k p [] = []"
  by (simp add: logistic_loop_iterate)

lemma logistic_loop_Cons:
  "logistic_loop r k p (y # ys) =
     (p + r * p * (1 - p / k)) # logistic_loop r k (p + r * p * (1 - p / k)) ys"
proof -
  define f where "f = (\<lambda>p. p + r * p * (1 - p / k))"
  have f: "f p = p + r * p * (1 - p / k)" for p
    by (simp add: f_def)
  have upt: "[0..<Suc (length ys)] = 0 # map Suc [0..<length ys]"
    by (simp add: upt_conv_Cons map_Suc_upt del: upt_Suc)
  have loop: "logistic_loop r k q zs = map (\<lambda>i. (f ^^ Suc i) q) [0..<length zs]" for q zs
    unfolding logistic_loop_def by (subst logistic_fold [of f, OF f]) simp
  have "logistic_loop r k p (y # ys) = f p # map (\<lambda>i. (f ^^ Suc i) (f p)) [0..<length ys]"
    by (simp add: loop upt funpow_swap1 comp_def del: upt_Suc)
  also have "\<dots> = f p # logistic_loop r k (f p) ys"
    by (simp add: loop)
  finally show ?thesis
    by (simp add: f)
qed

lemma euler_step_bounds:
  fixes r k p :: real
  assumes "0 < r" "r \<le> 1" "0 < p" "p \<le> k"
  shows "p \<le> p + r * p * (1 - p / k)" and "p + r * p * (1 - p / k) \<le> k"
proof -
  have k: "0 < k" using assms by linarith
  have pk: "p / k \<le> 1" using assms k by simp
  have "0 \<le> r * p * (1 - p / k)" using assms pk by simp
  then show "p \<le> p + r * p * (1 - p / k)" by simp
  have "k - (p + r * p * (1 - p / k)) = (k - p) * (1 - r * (p / k))"
    using k by (simp add: field_simps)
  moreover have "r * (p / k) \<le> 1"
  proof -
    have "0 \<le> p / k" using assms k by simp
    then have "r * (p / k) \<le> 1 * 1" using assms pk by (intro mult_mono) simp_all
    then show ?thesis by simp
  qed
  moreover have "0 \<le> k - p" using assms by simp
  ultimately have "0 \<le> k - (p + r * p * (1 - p / k))" by simp
  then show "p + r * p * (1 - p / k) \<le> k" by simp
qed

lemma logistic_loop_invariant:
  assumes "0 < r" "r \<le> 1"
  shows "0 < p \<Longrightarrow> p \<le> k \<Longrightarrow>
    (\<forall>x \<in> set (logistic_loop r k p ys). 0 < x \<and> x \<le> k) \<and> sorted (p # logistic_loop r k p ys)"
proof (induction ys arbitrary: p)
  case Nil
  show ?case by (simp add: logistic_loop_Nil)
next
  case (Cons y ys)
  let ?q = "p + r * p * (1 - p / k)"
  have q: "p \<le> ?q" "?q \<le> k"
    using euler_step_bounds [OF assms Cons.prems] by simp_all
  then have "0 < ?q" using Cons.prems by linarith
  from Cons.IH [OF this q(2)] q \<open>0 < ?q\<close> show ?case
    by (auto simp: logistic_loop_Cons)
qed

text \<open>
  C8. For a rate \<open>0 < r \<le> 1\<close> and a start \<open>0 < p \<le> k\<close>, one pass of the loop body
  keeps \<open>p\<close> within \<open>(0, k]\<close> and does not decrease it; hence every value of the
  logistic series lies within \<open>(0, k]\<close> and the series, with its start in front, is
  non-decreasing.
\<close>

theorem logistic_step_invariant:
  assumes "0 < r" and "r \<le> 1" and "0 < p" and "p \<le> k"
  shows "0 < fst (logistic_body r k (p, acc)) \<and> fst (logistic_body r k (p, acc)) \<le> k \<and>
         p \<le> fst (logistic_body r k (p, acc)) \<and>
         (\<forall>x \<in> set (logistic_loop r k p ys). 0 < x \<and> x \<le> k) \<and>
         sorted (p # logistic_loop r k p ys)"
proof -
  have "fst (logistic_body r k (p, acc)) = p + r * p * (1 - p / k)"
    by (simp add: logistic_body_def Let_def)
  moreover note euler_step_bounds [OF assms] logistic_loop_invariant [OF assms, of ys]
  ultimately show ?thesis using assms(3) by auto
qed

theorem logistic_step_invariant_witness:
  "(0::real) < 1 / 2 \<and> (1::real) / 2 \<le> 1 \<and> (0::real) < 1 \<and> (1::real) \<le> 2 \<and>
   fst (logistic_body (1 / 2) 2 (1, [])) = 5 / 4 \<and>
   logistic_loop (1 / 2) 2 1 [2022, 2023] = [5 / 4, 95 / 64] \<and>
   sorted (1 # logistic_loop (1 / 2) 2 1 [2022, 2023])"
  using logistic_step_invariant [of "1 / 2" 1 2 "[]" "[2022, 2023]"]
  by (simp add: logistic_loop_Cons logistic_loop_Nil logistic_body_def Let_def)

subsection \<open>The series of a row\<close>

lemma np_max_Max: "xs \<noteq> [] \<Longrightarrow> np_max xs = Max (set xs)"
proof -
  have "fold max ys a = Max (set (a # ys))" for ys and a :: real
    using Max.set_eq_fold [of a ys] by simp
  from this [of "tl xs" "hd xs"] show "xs \<noteq> [] \<Longrightarrow> np_max xs = Max (set xs)"
    by (simp add: np_max_def)
qed

lemma those_positive:
  "those (map np_log xs) = Some ys \<Longrightarrow> \<forall>x \<in> set xs. 0 < x"
  by (induction xs arbitrary: ys) (auto simp: np_log_def split: if_splits option.splits)

lemma np_max_ge: "x \<in> set xs \<Longrightarrow> x \<le> np_max xs"
proof -
  assume x: "x \<in> set xs"
  then have "xs \<noteq> []" by auto
  then have "np_max xs = Max (set xs)" by (rule np_max_Max)
  with x show ?thesis by simp
qed

lemma series_k_positive:
  assumes "forecast_series d = Inr s"
  shows "0 < s_k s"
proof -
  have "\<forall>x \<in> set (pop_of d). 0 < x"
    using forecast_series_fields(1) [OF assms]
    by (auto simp: fit_growth_rate_def Let_def np_log_def
        split: sum.splits if_splits option.splits dest!: those_positive)
  then have "0 < Population_1970 d" by (simp add: pop_of_eq)
  moreover have "Population_1970 d \<le> np_max (pop_of d)"
    by (rule np_max_ge) (simp add: pop_of_eq)
  ultimately show ?thesis
    using forecast_series_fields(2) [OF assms] by simp
qed

lemma logistic_loop_rate_0: "logistic_loop 0 k p ys = replicate (length ys) p"
  by (induction ys) (simp_all add: logistic_loop_Nil logistic_loop_Cons)

lemma pop_future_exp_map:
  "pop_future_exp p0 r y0 fys = map (\<lambda>yr. p0 * exp (r * real_of_int (yr - y0))) fys"
  by (simp add: pop_future_exp_def comp_def)

lemma forecast_series_flat: "forecast_series flat_row = Inr flat_series"
proof -
  have "np_max (pop_of flat_row) = 1000"
    by (simp add: np_max_def pop_of_eq flat_row_def)
  moreover have "pop_of flat_row ! 0 = 1000" "last (pop_of flat_row) = 1000"
    by (simp_all add: pop_of_eq flat_row_def)
  moreover have "pop_future_exp 1000 0 y0 future_years = replicate 50 1000" for y0
    by (simp add: pop_future_exp_map map_replicate_const length_future_years)
  ultimately show ?thesis
    by (simp add: forecast_series_def fit_flat Let_def flat_series_def logistic_loop_rate_0
        length_future_years)
qed







subsection \<open>Indexing, the table loop and the summary\<close>

lemma py_index_nonneg:
  "0 \<le> i \<Longrightarrow> i < int (length xs) \<Longrightarrow> py_index xs i = Inr (xs ! nat i)"
  by (simp add: py_index_def)

lemma py_index_first: "py_index xs 0 = (if xs = [] then Inl IndexError else Inr (xs ! 0))"
  by (simp add: py_index_def)

lemma py_index_last: "py_index xs (- 1) = (if xs = [] then Inl IndexError else Inr (last xs))"
proof (cases "xs = []")
  case True
  then show ?thesis by (simp add: py_index_def)
next
  case False
  then have "nat (int (length xs) - 1) = length xs - 1" by simp
  with False show ?thesis
    by (simp add: py_index_def last_conv_nth Suc_leI)
qed

lemma table_body_empty_horizon: "table_body [] exps logs yr tbl = Inl IndexError"
  by (simp add: table_body_def py_index_first)

lemma table_body_step:
  assumes "fys \<noteq> []" "length exps = length fys" "length logs = length fys"
  shows "table_body fys exps logs yr tbl =
     Inr (if fys ! 0 \<le> yr \<and> yr \<le> fys ! 0 + int (length fys) - 1
          then tbl @ [\<lparr>row_year = yr,
                       row_exp = format_commas (py_int (exps ! nat (yr - fys ! 0))),
                       row_log = format_commas (py_int (logs ! nat (yr - fys ! 0)))\<rparr>]
          else tbl)"
  using assms by (simp add: table_body_def py_index_first py_index_nonneg Let_def)

lemma table_loop_filter:
  assumes "fys \<noteq> []" "length exps = length fys" "length logs = length fys"
  shows "table_loop fys exps logs pts tbl =
     Inr (tbl @
       map (\<lambda>yr. \<lparr>row_year = yr,
                   row_exp = format_commas (py_int (exps ! nat (yr - fys ! 0))),
                   row_log = format_commas (py_int (logs ! nat (yr - fys ! 0)))\<rparr>)
         (filter (\<lambda>yr. fys ! 0 \<le> yr \<and> yr \<le> fys ! 0 + int (length fys) - 1) pts))"
proof (induction pts arbitrary: tbl)
  case Nil
  show ?case by simp
next
  case (Cons yr pts)
  show ?case
    by (simp add: table_body_step [OF assms] Cons.IH)
qed

lemma table_loop_empty_horizon: "pts \<noteq> [] \<Longrightarrow> table_loop [] exps logs pts tbl = Inl IndexError"
  by (cases pts) (simp_all add: table_body_empty_horizon)

lemma summarize_cases:
  "summarize tbl fys exps logs =
     (if tbl \<noteq> [] then Inr (summary_text (row_year (last tbl)) (row_exp (last tbl)) (row_log (last tbl)))
      else if fys = [] \<or> exps = [] \<or> logs = [] then Inl IndexError
      else Inr (summary_text (last fys) (format_commas (py_int (last exps)))
                  (format_commas (py_int (last logs)))))"
  by (simp add: summarize_def final_year_def final_exp_def final_log_def py_index_last)

subsection \<open>Evaluating the formats\<close>

lemma py_digits_numeral [simp]:
  "py_digits (numeral n) =
     (if numeral n < (10::nat) then [digit_char (numeral n)]
      else py_digits (numeral n div 10) @ [digit_char (numeral n mod 10)])"
  by (rule py_digits.simps)

lemma py_digits_small [simp]: "py_digits 0 = ''0''" "py_digits (Suc 0) = ''1''"
  by (simp_all add: py_digits.simps digit_char_def)

subsection \<open>The checkpoint table\<close>

text \<open>
  C5. For a horizon \<open>fys\<close> that is not empty, with a value of each model for each of its
  years, the table has exactly the checkpoint years of 2030, 2040, 2050, 2060, 2071 that
  lie within \<open>[fys[0], fys[0] + len(fys) - 1]\<close>, in ascending order, each with the two
  model values at the offset \<open>year - fys[0]\<close>; the other checkpoint years are skipped
  and the loop returns a table, not an error. With the program's horizon 2022 to 2071
  all five are kept.
\<close>

theorem forecast_table_checkpoints:
  assumes "fys \<noteq> []" and "length exps = length fys" and "length logs = length fys"
  shows "table_loop fys exps logs forecast_points [] =
           Inr (map (\<lambda>yr. \<lparr>row_year = yr,
                           row_exp = format_commas (py_int (exps ! nat (yr - fys ! 0))),
                           row_log = format_commas (py_int (logs ! nat (yr - fys ! 0)))\<rparr>)
                  (filter (\<lambda>yr. fys ! 0 \<le> yr \<and> yr \<le> fys ! 0 + int (length fys) - 1)
                     forecast_points)) \<and>
         sorted_wrt (<) (filter (\<lambda>yr. fys ! 0 \<le> yr \<and> yr \<le> fys ! 0 + int (length fys) - 1)
                     forecast_points) \<and>
         set forecast_points = {2030, 2040, 2050, 2060, 2071} \<and>
         filter (\<lambda>yr. future_years ! 0 \<le> yr \<and> yr \<le> future_years ! 0 + int (length future_years) - 1)
           forecast_points = [2030, 2040, 2050, 2060, 2071]"
proof -
  have "sorted_wrt (<) forecast_points"
    by (simp add: forecast_points_def)
  then have "sorted_wrt (<) (filter P forecast_points)" for P
    by (rule sorted_wrt_filter)
  moreover have "future_years ! 0 = 2022"
    by (simp add: future_years_upto upto.simps)
  ultimately show ?thesis
    using table_loop_filter [OF assms, of forecast_points "[]"]
    by (simp add: length_future_years) (simp add: forecast_points_def)
qed

theorem forecast_table_checkpoints_witness:
  "[2028, 2029, 2030, 2031] \<noteq> ([] :: int list) \<and>
   length [3/2, 5/2, 1234567/2, 9/2 :: real] = length [2028, 2029, 2030, 2031 :: int] \<and>
   length [1, 2, 2999.9, 4 :: real] = length [2028, 2029, 2030, 2031 :: int] \<and>
   table_loop [2028, 2029, 2030, 2031] [3/2, 5/2, 1234567/2, 9/2] [1, 2, 2999.9, 4]
     forecast_points [] =
     Inr [\<lparr>row_year = 2030, row_exp = ''617,283'', row_log = ''2,999''\<rparr>]"
  using forecast_table_checkpoints
    [of "[2028, 2029, 2030, 2031]" "[3/2, 5/2, 1234567/2, 9/2]" "[1, 2, 2999.9, 4]"]
  by (simp add: forecast_points_def py_int_def format_commas_def digit_char_def)

lemma table_loop_Inr_horizon:
  "table_loop fys exps logs forecast_points [] = Inr tbl \<Longrightarrow> fys \<noteq> []"
proof
  assume "table_loop fys exps logs forecast_points [] = Inr tbl" and "fys = []"
  moreover have "forecast_points \<noteq> []"
    by (simp add: forecast_points_def)
  ultimately show False
    by (simp add: table_loop_empty_horizon)
qed

subsection \<open>The outcomes of prepare_country_context\<close>

lemma polyfit_den_years: 
  "polyfit_den (map (\<lambda>y. real_of_int (y - 1970)) years) = 20823"
  by (simp add: polyfit_den_def years_def)

lemma those_np_log:
  "those (map np_log xs) = (if \<forall>x \<in> set xs. 0 < x then Some (map ln xs) else None)"
  by (induction xs) (auto simp: np_log_def)

lemma fit_growth_rate_years:
  assumes "length pop = 8"
  shows "fit_growth_rate years pop =
     (if \<forall>x \<in> set pop. 0 < x
      then Inr (polyfit1 (map (\<lambda>y. real_of_int (y - 1970)) years) (map ln pop) ! 0)
      else Inl NumericError)"
proof -
  have "py_index years 0 = Inr 1970" "length years = 8"
    by (simp_all add: py_index_def years_def)
  moreover have "polyfit_den (map (\<lambda>y. real_of_int (y - 1970)) years) \<noteq> 0"
    unfolding polyfit_den_years by simp
  ultimately show ?thesis
    using assms by (simp add: fit_growth_rate_def Let_def those_np_log)
qed

lemma forecast_series_cases:
  "forecast_series d =
     (if \<forall>x \<in> set (pop_of d). 0 < x
      then Inr \<lparr>s_r = polyfit1 (map (\<lambda>y. real_of_int (y - 1970)) years) (map ln (pop_of d)) ! 0,
                s_k = np_max (pop_of d) * 3,
                s_exp = pop_future_exp (Population_1970 d)
                  (polyfit1 (map (\<lambda>y. real_of_int (y - 1970)) years) (map ln (pop_of d)) ! 0)
                  1970 future_years,
                s_log = logistic_loop
                  (polyfit1 (map (\<lambda>y. real_of_int (y - 1970)) years) (map ln (pop_of d)) ! 0)
                  (np_max (pop_of d) * 3) (Population_2022 d) future_years\<rparr>
      else Inl NumericError)"
proof -
  have len: "length (pop_of d) = 8"
    by (simp add: pop_of_eq)
  have "pop_of d ! 0 = Population_1970 d" "last (pop_of d) = Population_2022 d" "years ! 0 = 1970"
    by (simp_all add: pop_of_eq years_def)
  then show ?thesis
    by (simp add: forecast_series_def Let_def fit_growth_rate_years [OF len])
qed

lemma series_lengths:
  assumes "forecast_series d = Inr s"
  shows "length (s_exp s) = length future_years" "length (s_log s) = length future_years"
  using forecast_series_fields(3,4) [OF assms]
  by (simp_all add: pop_future_exp_def logistic_loop_iterate)

lemma future_years_nth0: "future_years ! 0 = 2022"
  by (simp add: future_years_upto upto.simps)

lemma future_years_last: "last future_years = 2071"
  by (simp add: future_years_upto upto_rec2)

lemma future_years_not_Nil: "future_years \<noteq> []"
  using length_future_years by auto

lemma table_of_series:
  assumes "forecast_series d = Inr s"
  shows "table_loop future_years (s_exp s) (s_log s) forecast_points [] =
     Inr (map (\<lambda>yr. \<lparr>row_year = yr,
                     row_exp = format_commas (py_int (s_exp s ! nat (yr - 2022))),
                     row_log = format_commas (py_int (s_log s ! nat (yr - 2022)))\<rparr>)
            forecast_points)"
proof -
  have "filter (\<lambda>yr. 2022 \<le> yr \<and> yr \<le> 2071) forecast_points = forecast_points"
    by (simp add: forecast_points_def)
  then show ?thesis
    using table_loop_filter [OF future_years_not_Nil series_lengths [OF assms], of forecast_points "[]"]
    by (simp add: future_years_nth0 length_future_years)
qed

lemma summarize_of_series:
  assumes "forecast_series d = Inr s"
  shows "summarize (map (\<lambda>yr. \<lparr>row_year = yr,
                     row_exp = format_commas (py_int (s_exp s ! nat (yr - 2022))),
                     row_log = format_commas (py_int (s_log s ! nat (yr - 2022)))\<rparr>)
            forecast_points) future_years (s_exp s) (s_log s) =
        Inr (summary_text 2071 (format_commas (py_int (s_exp s ! 49)))
                        (format_commas (py_int (s_log s ! 49))))"
  by (simp add: summarize_cases forecast_points_def)

lemma prepare_country_context_Inr:
  assumes "select_row df (if nm \<notin> set (map Country_Territory df) then DEFAULT_COUNTRY else nm) = Inr d"
    and "forecast_series d = Inr s"
  shows "prepare_country_context bc df nm =
     Inr \<lparr>country = (if nm \<notin> set (map Country_Territory df) then DEFAULT_COUNTRY else nm),
          stats = stats_of d,
          growth_rate = format_fixed 4 (s_r s),
          chart = bc years (pop_of d) future_years (s_exp s) (s_log s)
            (if nm \<notin> set (map Country_Territory df) then DEFAULT_COUNTRY else nm),
          population_history = population_history_of (pop_of d),
          forecast_table =
            map (\<lambda>yr. \<lparr>row_year = yr,
               row_exp = format_commas (py_int (s_exp s ! nat (yr - 2022))),
               row_log = format_commas (py_int (s_log s ! nat (yr - 2022)))\<rparr>)
             forecast_points,
          forecast_summary =
            summary_text 2071 (format_commas (py_int (s_exp s ! 49)))
              (format_commas (py_int (s_log s ! 49)))\<rparr>"
  unfolding prepare_country_context_def Let_def
  by (simp only: assms sum.case table_of_series [OF assms(2)] summarize_of_series [OF assms(2)])

lemma prepare_country_context_Inl:
  assumes "select_row df (if nm \<notin> set (map Country_Territory df) then DEFAULT_COUNTRY else nm) = Inl e"
  shows "prepare_country_context bc df nm = Inl e"
  unfolding prepare_country_context_def Let_def
  by (simp only: assms sum.case)

lemma prepare_country_context_series_Inl:
  assumes "select_row df (if nm \<notin> set (map Country_Territory df) then DEFAULT_COUNTRY else nm) = Inr d"
    and "forecast_series d = Inl e"
  shows "prepare_country_context bc df nm = Inl e"
  unfolding prepare_country_context_def Let_def
  by (simp only: assms sum.case)

subsection \<open>The context of the sample row\<close>

lemma select_flat: "select_row [flat_row] ''Indonesia'' = Inr flat_row"
  by (simp add: select_row_def flat_row_def)

lemma format_1000: "format_commas (py_int 1000) = ''1,000''"
  by (simp add: py_int_def format_commas_def digit_char_def)

lemma replicate_num [simp]: "replicate (numeral n) x = x # replicate (pred_numeral n) x"
  by (simp add: numeral_eq_Suc)

lemma stats_flat:
  "stats_of flat_row = stats flat_context"
  by (simp add: stats_of_def flat_row_def flat_context_def py_int_def format_commas_def
      format_fixed_def round_half_even_def Let_def digit_char_def)

lemma context_flat: "prepare_country_context blank_chart [flat_row] ''Indonesia'' = Inr flat_context"
proof -
  have sel: "select_row [flat_row]
      (if ''Indonesia'' \<notin> set (map Country_Territory [flat_row]) then DEFAULT_COUNTRY
       else ''Indonesia'') = Inr flat_row"
    by (simp add: select_row_def flat_row_def)
  have gr: "format_fixed 4 0 = ''0.0000''"
    by (simp add: format_fixed_def round_half_even_def Let_def digit_char_def)
  have hist: "population_history_of (pop_of flat_row) = population_history flat_context"
    by (simp add: population_history_of_def pop_of_eq years_def flat_row_def format_1000
        flat_context_def)
  have nm: "(if ''Indonesia'' \<notin> set (map Country_Territory [flat_row]) then DEFAULT_COUNTRY
       else ''Indonesia'') = ''Indonesia''"
    by (simp add: DEFAULT_COUNTRY_def)
  show ?thesis
    unfolding prepare_country_context_Inr [OF sel forecast_series_flat] nm
    by (simp add: stats_flat hist gr flat_series_def forecast_points_def format_1000
        blank_chart_def flat_context_def)
qed

subsection \<open>The summary\<close>

lemma last_forecast_points: "forecast_points \<noteq> []" "last forecast_points = 2071"
  by (simp_all add: forecast_points_def)

text \<open>
  C9. Whenever the table loop has returned a table for a horizon with a value of each
  model for each of its years, the summary returns its text and raises nothing. The text
  is the sentence of lines 82 to 87 around three figures: from an empty table the last
  year of the horizon and the formatted last values of the two raw series, otherwise the
  three fields of the last row of the table. In a context that
  \<open>prepare_country_context\<close> returns the table is not empty, its last row is that of
  2071, and the summary is the sentence around the three fields of that row.
\<close>

theorem summary_falls_back_to_last_point:
  "(table_loop fys exps logs forecast_points [] = Inr tbl \<and>
    length exps = length fys \<and> length logs = length fys \<longrightarrow>
      summarize tbl fys exps logs =
        Inr (''Dalam horizon 50 tahun hingga '' @
             py_str_int (if tbl = [] then last fys else row_year (last tbl)) @
             '', model eksponensial memproyeksikan populasi mencapai sekitar '' @
             (if tbl = [] then format_commas (py_int (last exps)) else row_exp (last tbl)) @
             '' jiwa, sedangkan model logistic yang mempertimbangkan kapasitas lingkungan '' @
             ''memperkirakan sekitar '' @
             (if tbl = [] then format_commas (py_int (last logs)) else row_log (last tbl)) @
             '' jiwa. Perbedaan ini membantu membaca skenario optimistis versus realistis '' @
             ''untuk setiap negara.'')) \<and>
   (prepare_country_context bc df nm = Inr c \<longrightarrow>
      forecast_table c \<noteq> [] \<and> row_year (last (forecast_table c)) = 2071 \<and>
      forecast_summary c =
        ''Dalam horizon 50 tahun hingga 2071'' @
        '', model eksponensial memproyeksikan populasi mencapai sekitar '' @
        row_exp (last (forecast_table c)) @
        '' jiwa, sedangkan model logistic yang mempertimbangkan kapasitas lingkungan '' @
        ''memperkirakan sekitar '' @
        row_log (last (forecast_table c)) @
        '' jiwa. Perbedaan ini membantu membaca skenario optimistis versus realistis '' @
        ''untuk setiap negara.'')"
  (is "(?H1 \<longrightarrow> ?C1) \<and> (?H2 \<longrightarrow> ?C2)")
proof (rule conjI)
  show "?H1 \<longrightarrow> ?C1"
  proof
    assume a: ?H1
    then have "fys \<noteq> []"
      using table_loop_Inr_horizon by blast
    with a have "exps \<noteq> []" "logs \<noteq> []"
      by auto
    with \<open>fys \<noteq> []\<close> show ?C1
      by (simp add: summarize_cases summary_text_def)
  qed
  show "?H2 \<longrightarrow> ?C2"
  proof
    assume c: ?H2
    let ?cn = "if nm \<notin> set (map Country_Territory df) then DEFAULT_COUNTRY else nm"
    from c obtain d where d: "select_row df ?cn = Inr d"
      by (cases "select_row df ?cn") (simp_all add: prepare_country_context_Inl)
    from c d obtain s where s: "forecast_series d = Inr s"
      by (cases "forecast_series d") (simp_all add: prepare_country_context_series_Inl)
    have y: "py_str_int 2071 = ''2071''"
      by (simp add: py_str_int_def digit_char_def)
    from c show ?C2
      unfolding prepare_country_context_Inr [OF d s]
      by (auto simp: last_forecast_points last_map summary_text_def y)
  qed
qed

theorem summary_falls_back_to_last_point_witness:
  "table_loop [2022, 2023, 2024, 2025] [10, 20, 30, 40.9] [11, 12, 13, 1400.2] forecast_points [] = Inr [] \<and>
   length [10, 20, 30, 40.9 :: real] = length [2022, 2023, 2024, 2025 :: int] \<and>
   length [11, 12, 13, 1400.2 :: real] = length [2022, 2023, 2024, 2025 :: int] \<and>
   summarize [] [2022, 2023, 2024, 2025] [10, 20, 30, 40.9] [11, 12, 13, 1400.2] =
     Inr (''Dalam horizon 50 tahun hingga 2025, model eksponensial memproyeksikan '' @
          ''populasi mencapai sekitar 40 jiwa, sedangkan model logistic yang mempertimbangkan '' @
          ''kapasitas lingkungan memperkirakan sekitar 1,400 jiwa. Perbedaan ini membantu membaca '' @
          ''skenario optimistis versus realistis untuk setiap negara.'')"
proof -
  have tbl: "table_loop [2022, 2023, 2024, 2025] [10, 20, 30, 40.9] [11, 12, 13, 1400.2]
      forecast_points [] = Inr []"
    by (subst table_loop_filter) (simp_all add: forecast_points_def)
  have "summarize [] [2022, 2023, 2024, 2025] [10, 20, 30, 40.9] [11, 12, 13, 1400.2] =
     Inr (''Dalam horizon 50 tahun hingga 2025, model eksponensial memproyeksikan '' @
          ''populasi mencapai sekitar 40 jiwa, sedangkan model logistic yang mempertimbangkan '' @
          ''kapasitas lingkungan memperkirakan sekitar 1,400 jiwa. Perbedaan ini membantu membaca '' @
          ''skenario optimistis versus realistis untuk setiap negara.'')"
    using summary_falls_back_to_last_point
      [of "[2022, 2023, 2024, 2025]" "[10, 20, 30, 40.9]" "[11, 12, 13, 1400.2]" "[]"] tbl
    by (simp add: py_int_def format_commas_def py_str_int_def digit_char_def)
  with tbl show ?thesis
    by simp
qed

subsection \<open>Unknown names and populations that are not positive\<close>

lemma prepare_country_context_unknown:
  assumes "nm \<notin> set (map Country_Territory df)"
  shows "prepare_country_context bc df nm = prepare_country_context bc df DEFAULT_COUNTRY"
  using assms by (simp add: prepare_country_context_def)

lemma forecast_series_nonpositive:
  assumes "\<exists>x \<in> set (pop_of d). x \<le> 0"
  shows "forecast_series d = Inl NumericError"
proof -
  from assms have "\<not> (\<forall>x \<in> set (pop_of d). 0 < x)"
    by (auto simp: not_less)
  then show ?thesis
    by (simp only: forecast_series_cases if_False)
qed

lemma select_row_no_data_error: "select_row df nm \<noteq> Inl (DataError c y)"
  by (simp add: select_row_def split: list.splits)

lemma forecast_series_no_data_error: "forecast_series d \<noteq> Inl (DataError c y)"
  by (simp add: forecast_series_cases)

lemma prepare_country_context_no_index_error:
  assumes "select_row df (if nm \<notin> set (map Country_Territory df) then DEFAULT_COUNTRY else nm) = Inr d"
  shows "prepare_country_context bc df nm \<noteq> Inl IndexError"
proof (cases "forecast_series d")
  case (Inl e)
  then have "e = NumericError"
    by (simp add: forecast_series_cases split: if_splits)
  then show ?thesis
    by (simp add: prepare_country_context_series_Inl [OF assms Inl])
next
  case (Inr s)
  show ?thesis
    by (simp add: prepare_country_context_Inr [OF assms Inr])
qed

text \<open>
  C6. For a name that is not among the countries of the data frame, the result is the
  result of the request for the default country, in every field and in the error alike:
  a context returned for such a name reports the default country, every context that the
  default request returns is returned for the unknown name, and where the data frame has
  a row of the default country the selection of the row does not fail, so the name that
  is not known raises no error of its own.
\<close>

theorem unknown_country_is_default:
  assumes "nm \<notin> set (map Country_Territory df)"
  shows "prepare_country_context bc df nm = prepare_country_context bc df DEFAULT_COUNTRY \<and>
         (\<forall>c. prepare_country_context bc df nm = Inr c \<longrightarrow> country c = DEFAULT_COUNTRY) \<and>
         (\<forall>c. prepare_country_context bc df DEFAULT_COUNTRY = Inr c \<longrightarrow>
              prepare_country_context bc df nm = Inr c) \<and>
         (\<forall>d. select_row df DEFAULT_COUNTRY = Inr d \<longrightarrow>
              prepare_country_context bc df nm \<noteq> Inl IndexError)"
proof (intro conjI allI impI)
  show eq: "prepare_country_context bc df nm = prepare_country_context bc df DEFAULT_COUNTRY"
    using assms by (rule prepare_country_context_unknown)
  fix c
  assume "prepare_country_context bc df DEFAULT_COUNTRY = Inr c"
  with eq show "prepare_country_context bc df nm = Inr c"
    by simp
next
  fix c
  assume "prepare_country_context bc df nm = Inr c"
  then show "country c = DEFAULT_COUNTRY"
    using assms
    by (auto simp: prepare_country_context_def Let_def split: sum.splits)
next
  fix d
  assume "select_row df DEFAULT_COUNTRY = Inr d"
  with assms have "select_row df
      (if nm \<notin> set (map Country_Territory df) then DEFAULT_COUNTRY else nm) = Inr d"
    by simp
  then show "prepare_country_context bc df nm \<noteq> Inl IndexError"
    by (rule prepare_country_context_no_index_error)
qed

theorem unknown_country_is_default_witness:
  "''Nonexistent'' \<notin> set (map Country_Territory [flat_row]) \<and>
   prepare_country_context blank_chart [flat_row] ''Nonexistent'' =
     prepare_country_context blank_chart [flat_row] ''Indonesia'' \<and>
   map_sum id country (prepare_country_context blank_chart [flat_row] ''Nonexistent'') =
     Inr ''Indonesia'' \<and>
   select_row [flat_row] DEFAULT_COUNTRY = Inr flat_row \<and>
   prepare_country_context blank_chart [flat_row] ''Nonexistent'' \<noteq> Inl IndexError"
proof -
  have unk: "''Nonexistent'' \<notin> set (map Country_Territory [flat_row])"
    by (simp add: flat_row_def)
  note inst = unknown_country_is_default [OF unk, of blank_chart]
  have eq: "prepare_country_context blank_chart [flat_row] ''Nonexistent'' =
      prepare_country_context blank_chart [flat_row] ''Indonesia''"
    using inst by (simp add: DEFAULT_COUNTRY_def)
  have sel: "select_row [flat_row] DEFAULT_COUNTRY = Inr flat_row"
    by (simp add: select_flat DEFAULT_COUNTRY_def)
  have "prepare_country_context blank_chart [flat_row] ''Nonexistent'' \<noteq> Inl IndexError"
    using inst sel by blast
  moreover have "map_sum id country (prepare_country_context blank_chart [flat_row] ''Nonexistent'') =
      Inr ''Indonesia''"
    unfolding eq context_flat by (simp add: flat_context_def)
  ultimately show ?thesis
    using unk eq sel by simp
qed

text \<open>
  C1, as stated, fails: for the sample row with a population of 0 in 1990 the run ends,
  but not with a \<open>DataError\<close>.
\<close>

theorem nonpositive_population_counterexample:
  "Population_1990 zero_row \<le> 0 \<and>
   Population_1990 zero_row \<in> set (pop_of zero_row) \<and>
   prepare_country_context blank_chart [zero_row] ''Indonesia'' = Inl NumericError \<and>
   prepare_country_context blank_chart [zero_row] ''Indonesia'' \<noteq> Inl (DataError ''Indonesia'' 1990)"
proof -
  have sel: "select_row [zero_row]
      (if ''Indonesia'' \<notin> set (map Country_Territory [zero_row]) then DEFAULT_COUNTRY
       else ''Indonesia'') = Inr zero_row"
    by (simp add: select_row_def zero_row_def flat_row_def)
  have z: "Population_1990 zero_row \<le> 0" "Population_1990 zero_row \<in> set (pop_of zero_row)"
    by (simp_all add: zero_row_def pop_of_eq)
  then have "forecast_series zero_row = Inl NumericError"
    by (intro forecast_series_nonpositive) blast
  from prepare_country_context_series_Inl [OF sel this] z show ?thesis
    by simp
qed

text \<open>
  C1, amended. No input makes \<open>prepare_country_context\<close> raise a \<open>DataError\<close>: the
  function does not validate the series and names no country or year. When a population
  of the selected row is 0 or negative, the logarithm of that value is not a finite
  number and the run ends with the numeric failure of that value, without a forecast.
\<close>

theorem nonpositive_population_no_data_error:
  "prepare_country_context bc df nm \<noteq> Inl (DataError c y) \<and>
   (select_row df (if nm \<notin> set (map Country_Territory df) then DEFAULT_COUNTRY else nm) = Inr d \<and>
    (\<exists>x \<in> set (pop_of d). x \<le> 0) \<longrightarrow>
      prepare_country_context bc df nm = Inl NumericError)"
proof (intro conjI impI)
  let ?cn = "if nm \<notin> set (map Country_Territory df) then DEFAULT_COUNTRY else nm"
  show "prepare_country_context bc df nm \<noteq> Inl (DataError c y)"
  proof (cases "select_row df ?cn")
    case (Inl e)
    with select_row_no_data_error [of df ?cn c y] show ?thesis
      by (simp add: prepare_country_context_Inl [OF Inl])
  next
    case (Inr d')
    show ?thesis
    proof (cases "forecast_series d'")
      case (Inl e)
      with forecast_series_no_data_error [of d' c y] show ?thesis
        by (simp add: prepare_country_context_series_Inl [OF Inr Inl])
    next
      case Inr': (Inr s)
      show ?thesis
        by (simp add: prepare_country_context_Inr [OF Inr Inr'])
    qed
  qed
next
  assume "select_row df (if nm \<notin> set (map Country_Territory df) then DEFAULT_COUNTRY else nm) = Inr d \<and>
    (\<exists>x \<in> set (pop_of d). x \<le> 0)"
  then show "prepare_country_context bc df nm = Inl NumericError"
    using prepare_country_context_series_Inl forecast_series_nonpositive by blast
qed

theorem nonpositive_population_no_data_error_witness:
  "select_row [zero_row] ''Indonesia'' = Inr zero_row \<and>
   Population_1990 zero_row \<le> 0 \<and>
   prepare_country_context blank_chart [zero_row] ''Indonesia'' = Inl NumericError"
proof -
  have sel: "select_row [zero_row] ''Indonesia'' = Inr zero_row"
    by (simp add: select_row_def zero_row_def flat_row_def)
  have z: "Population_1990 zero_row \<le> 0" "Population_1990 zero_row \<in> set (pop_of zero_row)"
    by (simp_all add: zero_row_def pop_of_eq)
  have nm: "(if ''Indonesia'' \<notin> set (map Country_Territory [zero_row]) then DEFAULT_COUNTRY
       else ''Indonesia'') = ''Indonesia''"
    by (simp add: DEFAULT_COUNTRY_def)
  have "prepare_country_context blank_chart [zero_row] ''Indonesia'' = Inl NumericError"
    using nonpositive_population_no_data_error
      [of blank_chart "[zero_row]" "''Indonesia''" "[]" 0 zero_row] sel z
    unfolding nm by blast
  with sel z show ?thesis
    by simp
qed

subsection \<open>The formatted figures\<close>









subsection \<open>The least-squares line\<close>

lemma sq_residuals_expand:
  assumes "length ts = length ys"
  shows "sq_residuals ts ys a b =
     sum_list (map (\<lambda>y. y * y) ys) - 2 * a * sum_list (map2 (*) ts ys) - 2 * b * sum_list ys +
     a * a * sum_list (map (\<lambda>t. t * t) ts) + 2 * a * b * sum_list ts +
     real (length ts) * (b * b)"
  using assms
  by (induction ts ys rule: list_induct2)
     (simp_all add: sq_residuals_def power2_eq_square algebra_simps)

lemma sum_sq_dev:
  "sum_list (map (\<lambda>t. (t - m) * (t - m)) ts) =
     sum_list (map (\<lambda>t. t * t) ts) - 2 * m * sum_list ts + real (length ts) * (m * m)"
  for m :: real
  by (induction ts) (simp_all add: algebra_simps)

lemma polyfit_den_dev:
  assumes "ts \<noteq> []"
  shows "polyfit_den ts =
     real (length ts) * sum_list (map (\<lambda>t. (t - sum_list ts / real (length ts)) *
       (t - sum_list ts / real (length ts))) ts)"
proof -
  have n: "real (length ts) \<noteq> 0" using assms by simp
  show ?thesis
    unfolding sum_sq_dev polyfit_den_def using n by (simp add: field_simps)
qed

lemma polyfit_den_nonneg: "0 \<le> polyfit_den ts"
proof (cases "ts = []")
  case True
  then show ?thesis by (simp add: polyfit_den_def)
next
  case False
  have "0 \<le> sum_list (map (\<lambda>t. (t - m) * (t - m)) ts)" for m :: real
    by (rule sum_list_nonneg) auto
  then show ?thesis
    unfolding polyfit_den_dev [OF False] by simp
qed

lemma polyfit_den_pos:
  assumes "u \<in> set ts" "v \<in> set ts" "u \<noteq> v"
  shows "0 < polyfit_den ts"
proof -
  have ne: "ts \<noteq> []" using assms by auto
  define m where "m = sum_list ts / real (length ts)"
  have nonneg: "0 \<le> x" if "x \<in> set (map (\<lambda>t. (t - m) * (t - m)) ts)" for x
    using that by auto
  have "sum_list (map (\<lambda>t. (t - m) * (t - m)) ts) \<noteq> 0"
  proof
    assume "sum_list (map (\<lambda>t. (t - m) * (t - m)) ts) = 0"
    moreover have "(sum_list (map (\<lambda>t. (t - m) * (t - m)) ts) = 0) =
        (\<forall>x \<in> set (map (\<lambda>t. (t - m) * (t - m)) ts). x = 0)"
      by (rule sum_list_nonneg_eq_0_iff) (rule nonneg)
    ultimately have "\<forall>x \<in> set (map (\<lambda>t. (t - m) * (t - m)) ts). x = 0"
      by simp
    then have "\<forall>t \<in> set ts. t = m" by auto
    with assms have "u = m" "v = m" by blast+
    with assms(3) show False by simp
  qed
  moreover have "0 \<le> sum_list (map (\<lambda>t. (t - m) * (t - m)) ts)"
    by (rule sum_list_nonneg) auto
  ultimately have "0 < sum_list (map (\<lambda>t. (t - m) * (t - m)) ts)"
    by simp
  then show ?thesis
    unfolding polyfit_den_dev [OF ne] m_def [symmetric] using ne by simp
qed

lemma ols_algebra:
  fixes n St Stt Sy Sty Syy a b ah bh :: real
  assumes e1: "ah * (n * Stt - St * St) = n * Sty - St * Sy"
    and e2: "n * bh = Sy - ah * St"
  shows "n * ((Syy - 2 * a * Sty - 2 * b * Sy + a * a * Stt + 2 * a * b * St + n * (b * b)) -
              (Syy - 2 * ah * Sty - 2 * bh * Sy + ah * ah * Stt + 2 * ah * bh * St + n * (bh * bh))) =
         (ah - a) * (ah - a) * (n * Stt - St * St) + ((ah - a) * St + n * (bh - b)) * ((ah - a) * St + n * (bh - b))"
proof -
  have Sy: "Sy = n * bh + ah * St" using e2 by simp
  have Sty: "n * Sty = ah * (n * Stt - St * St) + St * Sy" using e1 by simp
  have "n * ((Syy - 2 * a * Sty - 2 * b * Sy + a * a * Stt + 2 * a * b * St + n * (b * b)) -
              (Syy - 2 * ah * Sty - 2 * bh * Sy + ah * ah * Stt + 2 * ah * bh * St + n * (bh * bh))) =
        2 * (ah - a) * (n * Sty) + n * (- 2 * b * Sy + a * a * Stt + 2 * a * b * St + n * (b * b)
          + 2 * bh * Sy - ah * ah * Stt - 2 * ah * bh * St - n * (bh * bh))"
    by (simp add: algebra_simps)
  also have "\<dots> = (ah - a) * (ah - a) * (n * Stt - St * St) + ((ah - a) * St + n * (bh - b)) * ((ah - a) * St + n * (bh - b))"
    unfolding Sty unfolding Sy by (simp add: algebra_simps)
  finally show ?thesis .
qed

lemma polyfit1_nth:
  "polyfit1 ts ys ! 0 =
     (real (length ts) * sum_list (map2 (*) ts ys) - sum_list ts * sum_list ys) / polyfit_den ts"
  "polyfit1 ts ys ! 1 = (sum_list ys - polyfit1 ts ys ! 0 * sum_list ts) / real (length ts)"
  by (simp_all add: polyfit1_def Let_def)

lemma polyfit1_gap:
  assumes len: "length ts = length ys" and den: "polyfit_den ts \<noteq> 0"
  shows "real (length ts) *
           (sq_residuals ts ys a b - sq_residuals ts ys (polyfit1 ts ys ! 0) (polyfit1 ts ys ! 1)) =
         (polyfit1 ts ys ! 0 - a) * (polyfit1 ts ys ! 0 - a) * polyfit_den ts +
         ((polyfit1 ts ys ! 0 - a) * sum_list ts + real (length ts) * (polyfit1 ts ys ! 1 - b)) *
         ((polyfit1 ts ys ! 0 - a) * sum_list ts + real (length ts) * (polyfit1 ts ys ! 1 - b))"
proof -
  have "ts \<noteq> []" using den by (auto simp: polyfit_den_def)
  then have n: "real (length ts) \<noteq> 0" by simp
  have e1: "polyfit1 ts ys ! 0 *
      (real (length ts) * sum_list (map (\<lambda>t. t * t) ts) - sum_list ts * sum_list ts) =
      real (length ts) * sum_list (map2 (*) ts ys) - sum_list ts * sum_list ys"
    using den by (simp add: polyfit1_nth(1) polyfit_den_def)
  have e2: "real (length ts) * (polyfit1 ts ys ! 1) = sum_list ys - polyfit1 ts ys ! 0 * sum_list ts"
    unfolding polyfit1_nth(2) using n by simp
  show ?thesis
    unfolding sq_residuals_expand [OF len] polyfit_den_def
    by (rule ols_algebra [OF e1 e2])
qed

lemma polyfit1_minimises:
  assumes len: "length ts = length ys" and den: "polyfit_den ts \<noteq> 0"
  shows "sq_residuals ts ys (polyfit1 ts ys ! 0) (polyfit1 ts ys ! 1) \<le> sq_residuals ts ys a b"
proof -
  have "ts \<noteq> []" using den by (auto simp: polyfit_den_def)
  then have n: "0 < real (length ts)" by simp
  have "0 \<le> real (length ts) *
           (sq_residuals ts ys a b - sq_residuals ts ys (polyfit1 ts ys ! 0) (polyfit1 ts ys ! 1))"
    unfolding polyfit1_gap [OF len den] using polyfit_den_nonneg [of ts] by simp
  then have "0 \<le> sq_residuals ts ys a b - sq_residuals ts ys (polyfit1 ts ys ! 0) (polyfit1 ts ys ! 1)"
    using n by (simp add: zero_le_mult_iff)
  then show ?thesis by simp
qed

lemma polyfit1_unique_slope:
  assumes len: "length ts = length ys" and den: "polyfit_den ts \<noteq> 0"
    and eq: "sq_residuals ts ys a b = sq_residuals ts ys (polyfit1 ts ys ! 0) (polyfit1 ts ys ! 1)"
  shows "a = polyfit1 ts ys ! 0"
proof -
  have pos: "0 < polyfit_den ts"
    using den polyfit_den_nonneg [of ts] by simp
  define u where "u = polyfit1 ts ys ! 0 - a"
  define w where "w = u * sum_list ts + real (length ts) * (polyfit1 ts ys ! 1 - b)"
  have "u * u * polyfit_den ts + w * w = 0"
    using polyfit1_gap [OF len den, of a b] eq by (simp add: u_def w_def)
  moreover have "0 \<le> u * u * polyfit_den ts" "0 \<le> w * w"
    using pos by simp_all
  ultimately have "u * u * polyfit_den ts = 0"
    by linarith
  with pos have "u = 0" by simp
  then show ?thesis by (simp add: u_def)
qed

lemma polyfit1_exact_line:
  assumes den: "polyfit_den ts \<noteq> 0"
  shows "polyfit1 ts (map (\<lambda>t. c + r0 * t) ts) ! 0 = r0"
proof -
  have sy: "sum_list (map (\<lambda>t. c + r0 * t) ts) = real (length ts) * c + r0 * sum_list ts"
    by (induction ts) (simp_all add: algebra_simps)
  have sty: "sum_list (map2 (*) ts (map (\<lambda>t. c + r0 * t) ts)) =
      c * sum_list ts + r0 * sum_list (map (\<lambda>t. t * t) ts)"
    by (induction ts) (simp_all add: algebra_simps)
  have "real (length ts) * sum_list (map2 (*) ts (map (\<lambda>t. c + r0 * t) ts)) -
      sum_list ts * sum_list (map (\<lambda>t. c + r0 * t) ts) = r0 * polyfit_den ts"
    unfolding sy sty polyfit_den_def by (simp add: algebra_simps)
  then show ?thesis
    using den by (simp add: polyfit1_nth(1))
qed

lemma fit_growth_rate_InrD:
  assumes "fit_growth_rate yrs pop = Inr r"
  shows "length (map (\<lambda>y. real_of_int (y - yrs ! 0)) yrs) = length (map ln pop)"
    and "polyfit_den (map (\<lambda>y. real_of_int (y - yrs ! 0)) yrs) \<noteq> 0"
    and "r = polyfit1 (map (\<lambda>y. real_of_int (y - yrs ! 0)) yrs) (map ln pop) ! 0"
    and "\<forall>x \<in> set pop. 0 < x"
  using assms
  by (auto simp: fit_growth_rate_def py_index_first Let_def those_np_log
      split: if_splits option.splits)

lemma fit_growth_rate_exponential:
  assumes p0: "0 < p0" and two: "\<exists>y \<in> set yrs. y \<noteq> yrs ! 0"
  shows "fit_growth_rate yrs (map (\<lambda>y. p0 * exp (r0 * real_of_int (y - yrs ! 0))) yrs) = Inr r0"
proof -
  let ?t = "map (\<lambda>y. real_of_int (y - yrs ! 0)) yrs"
  let ?pop = "map (\<lambda>y. p0 * exp (r0 * real_of_int (y - yrs ! 0))) yrs"
  from two have ne: "yrs \<noteq> []" by auto
  then have first: "yrs ! 0 \<in> set yrs" by simp
  from two obtain y where y: "y \<in> set yrs" "y \<noteq> yrs ! 0" by blast
  have "real_of_int (y - yrs ! 0) \<in> set ?t" "real_of_int (yrs ! 0 - yrs ! 0) \<in> set ?t"
    using y(1) first by (auto simp del: of_int_diff diff_self)
  moreover have "real_of_int (y - yrs ! 0) \<noteq> real_of_int (yrs ! 0 - yrs ! 0)"
    using y(2) by simp
  ultimately have "0 < polyfit_den ?t"
    by (rule polyfit_den_pos)
  then have den: "polyfit_den ?t \<noteq> 0" by simp
  have pos: "\<forall>x \<in> set ?pop. 0 < x"
    using p0 by (auto simp: zero_less_mult_iff)
  have "ln (p0 * exp (r0 * x)) = ln p0 + r0 * x" for x
    using p0 by (simp add: ln_mult)
  then have logs: "map ln ?pop = map (\<lambda>t. ln p0 + r0 * t) ?t"
    by (simp add: comp_def)
  have fit: "polyfit1 ?t (map ln ?pop) ! 0 = r0"
    unfolding logs by (rule polyfit1_exact_line [OF den])
  have idx: "py_index yrs 0 = Inr (yrs ! 0)"
    using ne by (simp add: py_index_first)
  have len: "length ?t = length ?pop"
    by simp
  have th: "those (map np_log ?pop) = Some (map ln ?pop)"
    unfolding those_np_log using pos by (rule if_P)
  show ?thesis
    unfolding fit_growth_rate_def
    by (simp only: idx sum.case Let_def len th option.case den fit simp_thms if_False)
qed

text \<open>
  C2. A fitted rate \<open>r\<close> is the slope of the least-squares line through the points
  \<open>(year - year\<^sub>0, ln population)\<close>: with some intercept it attains the least sum of
  squared residuals, and every line that attains it has slope \<open>r\<close>. Hence a series
  \<open>p0 * exp (r0 * (year - year\<^sub>0))\<close> with \<open>p0 > 0\<close>, over years that are not all the
  same, is fitted with \<open>r = r0\<close>. The rate of a row's forecast is this fit of its eight
  columns over \<open>years\<close>.
\<close>

theorem growth_rate_is_least_squares_slope:
  "(fit_growth_rate yrs pop = Inr r \<longrightarrow>
      (\<exists>b. (\<forall>a' b'. sq_residuals (map (\<lambda>y. real_of_int (y - yrs ! 0)) yrs) (map ln pop) r b
                      \<le> sq_residuals (map (\<lambda>y. real_of_int (y - yrs ! 0)) yrs) (map ln pop) a' b') \<and>
           (\<forall>a' b'. sq_residuals (map (\<lambda>y. real_of_int (y - yrs ! 0)) yrs) (map ln pop) a' b'
                      = sq_residuals (map (\<lambda>y. real_of_int (y - yrs ! 0)) yrs) (map ln pop) r b
                    \<longrightarrow> a' = r))) \<and>
   (0 < p0 \<and> (\<exists>y \<in> set yrs. y \<noteq> yrs ! 0) \<longrightarrow>
      fit_growth_rate yrs (map (\<lambda>y. p0 * exp (r0 * real_of_int (y - yrs ! 0))) yrs) = Inr r0) \<and>
   (forecast_series d = Inr s \<longrightarrow> fit_growth_rate years (pop_of d) = Inr (s_r s))"
proof (intro conjI impI)
  assume fit: "fit_growth_rate yrs pop = Inr r"
  let ?t = "map (\<lambda>y. real_of_int (y - yrs ! 0)) yrs"
  let ?l = "map ln pop"
  note D = fit_growth_rate_InrD [OF fit]
  have r: "r = polyfit1 ?t ?l ! 0" by (rule D(3))
  have "\<forall>a' b'. sq_residuals ?t ?l r (polyfit1 ?t ?l ! 1) \<le> sq_residuals ?t ?l a' b'"
    unfolding r using polyfit1_minimises [OF D(1) D(2)] by blast
  moreover have "\<forall>a' b'. sq_residuals ?t ?l a' b' = sq_residuals ?t ?l r (polyfit1 ?t ?l ! 1) \<longrightarrow> a' = r"
    unfolding r using polyfit1_unique_slope [OF D(1) D(2)] by blast
  ultimately show "\<exists>b. (\<forall>a' b'. sq_residuals ?t ?l r b \<le> sq_residuals ?t ?l a' b') \<and>
      (\<forall>a' b'. sq_residuals ?t ?l a' b' = sq_residuals ?t ?l r b \<longrightarrow> a' = r)"
    by blast
next
  assume "0 < p0 \<and> (\<exists>y \<in> set yrs. y \<noteq> yrs ! 0)"
  then show "fit_growth_rate yrs (map (\<lambda>y. p0 * exp (r0 * real_of_int (y - yrs ! 0))) yrs) = Inr r0"
    using fit_growth_rate_exponential by blast
next
  assume "forecast_series d = Inr s"
  then show "fit_growth_rate years (pop_of d) = Inr (s_r s)"
    by (rule forecast_series_fields(1))
qed

theorem growth_rate_is_least_squares_slope_witness:
  "(0::real) < 100 \<and> (10::int) \<in> set [0, 10, 20, 30] \<and> (10::int) \<noteq> [0, 10, 20, 30] ! 0 \<and>
   fit_growth_rate [0, 10, 20, 30] [100, 200, 400, 800] = Inr (ln 2 / 10)"
proof -
  have two: "\<exists>y \<in> set [0, 10, 20, 30 :: int]. y \<noteq> [0, 10, 20, 30] ! 0"
    by simp
  have pw: "exp (real n * ln 2) = 2 ^ n" for n
    using exp_of_nat_mult [of n "ln (2::real)"] by simp
  have "exp (ln 2 / 10 * 10) = (2::real)" "exp (ln 2 / 10 * 20) = (4::real)"
    "exp (ln 2 / 10 * 30) = (8::real)"
    using pw [of 1] pw [of 2] pw [of 3] by simp_all
  then have pop: "map (\<lambda>y. 100 * exp (ln 2 / 10 * real_of_int (y - [0, 10, 20, 30] ! 0)))
      [0, 10, 20, 30] = [100, 200, 400, 800 :: real]"
    by simp
  have "fit_growth_rate [0, 10, 20, 30] [100, 200, 400, 800] = Inr (ln 2 / 10)"
    using growth_rate_is_least_squares_slope
      [of "[0, 10, 20, 30]" "[]" 0 100 "ln 2 / 10" flat_row flat_series] two
    unfolding pop by simp
  then show ?thesis
    by simp
qed

end
